theory Spec2Isabelle
  imports Complex_Main "HOL-Library.Product_Lexorder" "HOL-Library.Multiset"
begin

section \<open>Conventions of the embedding\<close>

text \<open>
  The Python sources compute with floats; the embedding computes with \<open>real\<close>, so
  rounding, infinities and NaN are outside the model. A Python call that raises is a
  value \<open>Inl e\<close> of a sum type; a function of the source that contains no \<open>raise\<close> and
  calls nothing that can raise on the modelled data is a plain HOL function.

  Functions of the Python library that the sources call (\<open>datetime.fromisoformat\<close>,
  \<open>strftime\<close>, adding a \<open>timedelta\<close>, formatting a float) are parameters of the
  model: every theorem holds for all of them.
\<close>

datatype error =
    KeyError              \<comment> \<open>\<open>d[k]\<close> on a missing key\<close>
  | ValueError            \<comment> \<open>\<open>datetime.fromisoformat\<close> on a string it cannot parse\<close>
  | TypeError             \<comment> \<open>an order comparison with \<open>None\<close>\<close>
  | IndexError            \<comment> \<open>\<open>xs[0]\<close> on an empty list\<close>
  | FieldNotFound         \<comment> \<open>\<open>Exception("Field with id ... not found")\<close>\<close>
  | NoSuitableWindow      \<comment> \<open>\<open>Exception("No suitable weather windows found ...")\<close>\<close>
  | WeatherUnavailable    \<comment> \<open>\<open>Exception("Weather data unavailable online and offline ...")\<close>\<close>

text \<open>
  \<open>v and P(v)\<close> for an optional number \<open>v\<close>: Python takes \<open>None\<close> and \<open>0\<close> as false
  and only then evaluates \<open>P(v)\<close>.
\<close>

fun truthy_and :: "real option \<Rightarrow> (real \<Rightarrow> bool) \<Rightarrow> bool" where
  "truthy_and None P = False"
| "truthy_and (Some x) P = (x \<noteq> 0 \<and> P x)"

text \<open>
  \<open>list.sort(key=..., reverse=True)\<close> and \<open>sorted(..., key=..., reverse=True)\<close>: CPython
  reverses the list, sorts it stably in ascending order of the key and reverses the
  result, which keeps elements of equal key in their original order.
\<close>

definition sort_reverse :: "('a \<Rightarrow> 'k::linorder) \<Rightarrow> 'a list \<Rightarrow> 'a list" where
  "sort_reverse key xs = rev (sort_key key (rev xs))"

text \<open>
  The operations of Python's \<open>datetime\<close> that the sources use, over a linearly ordered
  type \<open>'d\<close> of points in time: \<open>datetime.fromisoformat(s)\<close> (\<open>None\<close> when it raises
  \<open>ValueError\<close>), \<open>d.strftime("%Y-%m-%d")\<close> and \<open>d + timedelta(days=n)\<close>.
\<close>

record 'd datelib =
  fromisoformat :: "string \<Rightarrow> 'd option"
  strftime :: "'d \<Rightarrow> string"
  add_days :: "'d \<Rightarrow> int \<Rightarrow> 'd"

text \<open>
  A numeric entry of a JSON dictionary: the key is absent, its value is \<open>null\<close>, or its
  value is a number. \<open>_process_weather_data\<close> stores \<open>None\<close> for a day past the end of
  a column, so \<open>Null\<close> occurs in forecasts this repository builds.
\<close>

datatype jnum = Absent | Null | Num real

text \<open>\<open>d.get(k)\<close> and \<open>d.get(k, default)\<close> on such an entry.\<close>

fun dict_get :: "jnum \<Rightarrow> real option" where
  "dict_get Absent = None"
| "dict_get Null = None"
| "dict_get (Num x) = Some x"

fun dict_get_default :: "jnum \<Rightarrow> real \<Rightarrow> real option" where
  "dict_get_default Absent d = Some d"
| "dict_get_default Null d = None"
| "dict_get_default (Num x) d = Some x"

section \<open>Weather windows (app/weather/service.py)\<close>

record daily_entry =
  date :: "string option"
  precipitation_sum :: jnum
  temperature_2m_max :: jnum
  temperature_2m_min :: jnum

record weather_data =
  daily :: "daily_entry list option"

text \<open>\<open>weather_data.get("daily", [])\<close>\<close>

definition daily_list :: "weather_data \<Rightarrow> daily_entry list" where
  "daily_list wd = (case daily wd of None \<Rightarrow> [] | Some es \<Rightarrow> es)"

record suitability =
  is_suitable :: bool
  reasons :: "string list"
  risks :: "string list"

text \<open>
  \<open>WeatherService.check_weather_suitability\<close>, the body of the loop for the entry of
  the target date. \<open>str_of p\<close> stands for Python's \<open>f"{p}"\<close>. The comparison
  \<open>precipitation > 0\<close> is evaluated only when \<open>requires_dry_weather\<close> holds, and raises
  \<open>TypeError\<close> on \<open>None\<close>.
\<close>

fun check_precipitation ::
  "(real \<Rightarrow> string) \<Rightarrow> bool \<Rightarrow> real option \<Rightarrow> suitability \<Rightarrow> error + suitability" where
  "check_precipitation str_of False p s = Inr s"
| "check_precipitation str_of True None s = Inl TypeError"
| "check_precipitation str_of True (Some p) s =
     Inr (if p > 0
          then s\<lparr>is_suitable := False,
                 reasons := reasons s @ [''Rain expected ('' @ str_of p @ '' mm)''],
                 risks := risks s @ [''Chemical runoff risk'']\<rparr>
          else s)"

definition check_temperature :: "daily_entry \<Rightarrow> suitability \<Rightarrow> suitability" where
  "check_temperature daily_entry s =
     (let temp_max = dict_get (temperature_2m_max daily_entry);
          temp_min = dict_get (temperature_2m_min daily_entry);
          s1 = (if truthy_and temp_max (\<lambda>t. t > 35)
                then s\<lparr>risks := risks s @ [''High temperature stress'']\<rparr> else s);
          s2 = (if truthy_and temp_min (\<lambda>t. t < 10)
                then s1\<lparr>risks := risks s1 @ [''Low temperature stress'']\<rparr> else s1)
      in s2)"

definition check_entry ::
  "(real \<Rightarrow> string) \<Rightarrow> bool \<Rightarrow> daily_entry \<Rightarrow> suitability \<Rightarrow> error + suitability" where
  "check_entry str_of requires_dry_weather daily_entry s =
     (case check_precipitation str_of requires_dry_weather
             (dict_get_default (precipitation_sum daily_entry) 0) s of
        Inl e \<Rightarrow> Inl e
      | Inr s' \<Rightarrow> Inr (check_temperature daily_entry s'))"

text \<open>The loop: the first entry whose date string equals the target decides, then \<open>break\<close>.\<close>

fun check_daily ::
  "(real \<Rightarrow> string) \<Rightarrow> bool \<Rightarrow> string \<Rightarrow> suitability \<Rightarrow> daily_entry list
     \<Rightarrow> error + suitability" where
  "check_daily str_of requires_dry_weather target_date s [] = Inr s"
| "check_daily str_of requires_dry_weather target_date s (daily_entry # rest) =
     (if date daily_entry = Some target_date
      then check_entry str_of requires_dry_weather daily_entry s
      else check_daily str_of requires_dry_weather target_date s rest)"

definition check_weather_suitability ::
  "'d datelib \<Rightarrow> (real \<Rightarrow> string) \<Rightarrow> weather_data \<Rightarrow> 'd \<Rightarrow> bool \<Rightarrow> error + suitability" where
  "check_weather_suitability lib str_of wd d requires_dry_weather =
     (let target_date = strftime lib d;
          s = \<lparr>is_suitable = True, reasons = [], risks = []\<rparr>
      in check_daily str_of requires_dry_weather target_date s (daily_list wd))"

text \<open>
  A weather window: the dictionary \<open>get_optimal_weather_window\<close> appends, with the keys
  \<open>predict_optimal_date\<close> adds to it later (\<open>None\<close> while a key is not set).
\<close>

record 'd window =
  window_date :: 'd
  weather_score :: real
  precipitation :: real
  temperature_max :: "real option"
  temperature_min :: "real option"
  window_is_suitable :: bool
  estimated_cost :: "real option"
  budget_ok :: "bool option"
  predicted_yield_value :: "real option"
  net_financial_return :: "real option"

text \<open>The score of one day, before it is clamped.\<close>

definition precipitation_score :: "bool \<Rightarrow> real \<Rightarrow> real" where
  "precipitation_score requires_dry_weather p =
     (if requires_dry_weather
      then (if p > 0 then 100 - p * 20 else 100)
      else (if p > 10 then 100 - 30 else 100))"

definition temperature_score :: "real option \<Rightarrow> real \<Rightarrow> real" where
  "temperature_score temp_max score =
     (if truthy_and temp_max (\<lambda>t. 20 \<le> t \<and> t \<le> 30) then score + 10
      else if truthy_and temp_max (\<lambda>t. t < 15 \<or> t > 35) then score - 20
      else score)"

definition make_window :: "bool \<Rightarrow> 'd \<Rightarrow> real \<Rightarrow> daily_entry \<Rightarrow> 'd window" where
  "make_window requires_dry_weather entry_date p daily_entry =
     (let temp_max = dict_get (temperature_2m_max daily_entry);
          temp_min = dict_get (temperature_2m_min daily_entry);
          score = temperature_score temp_max (precipitation_score requires_dry_weather p)
      in \<lparr>window_date = entry_date,
          weather_score = max 0 score,
          precipitation = p,
          temperature_max = temp_max,
          temperature_min = temp_min,
          window_is_suitable = (score \<ge> 70),
          estimated_cost = None,
          budget_ok = None,
          predicted_yield_value = None,
          net_financial_return = None\<rparr>)"

text \<open>
  One iteration of the loop of \<open>get_optimal_weather_window\<close>: \<open>daily_entry["date"]\<close>
  raises \<open>KeyError\<close> without the key, \<open>fromisoformat\<close> raises \<open>ValueError\<close>, and for a
  day inside the range the comparison of the precipitation raises \<open>TypeError\<close> on
  \<open>None\<close>. The result is the window to append, if any.
\<close>

definition entry_window ::
  "('d::linorder) datelib \<Rightarrow> 'd \<Rightarrow> 'd \<Rightarrow> bool \<Rightarrow> daily_entry \<Rightarrow> error + 'd window option" where
  "entry_window lib start_date end_date requires_dry_weather daily_entry =
     (case date daily_entry of
        None \<Rightarrow> Inl KeyError
      | Some s \<Rightarrow>
          (case fromisoformat lib s of
             None \<Rightarrow> Inl ValueError
           | Some entry_date \<Rightarrow>
               if start_date \<le> entry_date \<and> entry_date \<le> end_date
               then (case dict_get_default (precipitation_sum daily_entry) 0 of
                       None \<Rightarrow> Inl TypeError
                     | Some p \<Rightarrow>
                         Inr (Some (make_window requires_dry_weather entry_date p daily_entry)))
               else Inr None))"

fun collect_windows ::
  "('d::linorder) datelib \<Rightarrow> 'd \<Rightarrow> 'd \<Rightarrow> bool \<Rightarrow> daily_entry list \<Rightarrow> error + 'd window list" where
  "collect_windows lib start_date end_date requires_dry_weather [] = Inr []"
| "collect_windows lib start_date end_date requires_dry_weather (daily_entry # rest) =
     (case entry_window lib start_date end_date requires_dry_weather daily_entry of
        Inl e \<Rightarrow> Inl e
      | Inr w \<Rightarrow>
          (case collect_windows lib start_date end_date requires_dry_weather rest of
             Inl e \<Rightarrow> Inl e
           | Inr ws \<Rightarrow> Inr (case w of None \<Rightarrow> ws | Some x \<Rightarrow> x # ws)))"

definition get_optimal_weather_window ::
  "('d::linorder) datelib \<Rightarrow> weather_data \<Rightarrow> 'd \<Rightarrow> 'd \<Rightarrow> bool \<Rightarrow> error + 'd window list" where
  "get_optimal_weather_window lib wd start_date end_date requires_dry_weather =
     (case collect_windows lib start_date end_date requires_dry_weather (daily_list wd) of
        Inl e \<Rightarrow> Inl e
      | Inr optimal_windows \<Rightarrow> Inr (sort_reverse weather_score optimal_windows))"

section \<open>Cost and yield estimation (app/decision\_tree/engine.py)\<close>

datatype crop = Coconut | Corn | Rice

text \<open>\<open>DecisionTreeEngine._estimate_operation_cost\<close>: the dictionary is built per call.\<close>

definition cost_estimates :: "real \<Rightarrow> (string \<times> real) list" where
  "cost_estimates area_hectares =
     [(''land_preparation'', 5000 * area_hectares),
      (''planting'', 3000 * area_hectares),
      (''fertilization'', 2000 * area_hectares),
      (''irrigation'', 1000 * area_hectares),
      (''pest_control'', 1500 * area_hectares),
      (''harvesting'', 4000 * area_hectares)]"

definition estimate_operation_cost :: "string \<Rightarrow> real \<Rightarrow> real" where
  "estimate_operation_cost operation_type area_hectares =
     (case map_of (cost_estimates area_hectares) operation_type of
        Some c \<Rightarrow> c
      | None \<Rightarrow> 1000 * area_hectares)"

text \<open>
  \<open>DecisionTreeEngine._predict_yield\<close>. The crop is optional: the column
  \<open>Field.crop_type\<close> is nullable, and \<open>base_yields.get(crop_type, 20000)\<close> covers it.
\<close>

definition base_yields :: "crop option \<Rightarrow> real" where
  "base_yields crop_type =
     (case crop_type of
        Some Coconut \<Rightarrow> 50000
      | Some Corn \<Rightarrow> 30000
      | Some Rice \<Rightarrow> 40000
      | None \<Rightarrow> 20000)"

definition impact_factors :: "(string \<times> real) list" where
  "impact_factors =
     [(''land_preparation'', 0.1),
      (''planting'', 0.15),
      (''fertilization'', 0.25),
      (''irrigation'', 0.2),
      (''pest_control'', 0.15),
      (''harvesting'', 0.15)]"

definition predict_yield :: "crop option \<Rightarrow> string \<Rightarrow> real \<Rightarrow> real \<Rightarrow> real" where
  "predict_yield crop_type operation_type weather_score_v area_hectares =
     (let base_yield = base_yields crop_type;
          impact = (case map_of impact_factors operation_type of Some i \<Rightarrow> i | None \<Rightarrow> 0.1);
          weather_multiplier = 0.5 + weather_score_v / 100
      in base_yield * area_hectares * impact * weather_multiplier)"

section \<open>Fields, tasks and the database (app/models.py, app/schemas.py)\<close>

record 'd farm_field =
  area_hectares :: real
  crop_type :: "crop option"
  planting_date :: "'d option"

text \<open>
  \<open>ScheduledTaskCreate\<close> and the row \<open>ScheduledTask\<close> that \<open>create_scheduled_task\<close>
  stores. The display strings \<open>task_name\<close> and \<open>description\<close>, the unset
  \<open>actual_cost\<close> and the generated \<open>id\<close> and \<open>created_at\<close> are not modelled.
\<close>

record 'd scheduled_task_create =
  task_type :: string
  scheduled_date :: 'd
  task_estimated_cost :: real
  requires_dry_weather :: bool
  priority :: int
  task_field_id :: int

record 'd scheduled_task = "'d scheduled_task_create" +
  user_id :: int
  status :: string
  decision_tree_recommendation :: bool

text \<open>
  The database session, as far as the modelled functions use it: the table of fields
  by identifier, and the table of scheduled tasks in insertion order.
\<close>

record 'd database =
  farm_fields :: "int \<Rightarrow> 'd farm_field option"
  scheduled_tasks :: "'d scheduled_task list"

section \<open>Recommendation of a date (app/decision\_tree/engine.py)\<close>

record decision_tree_request =
  field_id :: int
  operation_type :: string
  budget_constraint :: "real option"










section \<open>Schedule generation (app/scheduling/service.py)\<close>

text \<open>\<open>crop_parameters[...]["growth_stages"]\<close> of \<open>DecisionTreeEngine.__init__\<close>.\<close>

definition growth_stages :: "crop \<Rightarrow> (string \<times> int) list" where
  "growth_stages c =
     (case c of
        Coconut \<Rightarrow> [(''land_preparation'', 7), (''planting'', 1), (''fertilization'', 30),
                     (''irrigation'', 7), (''pest_control'', 15), (''harvesting'', 180)]
      | Corn \<Rightarrow> [(''land_preparation'', 7), (''planting'', 1), (''fertilization'', 21),
                  (''irrigation'', 3), (''pest_control'', 14), (''harvesting'', 90)]
      | Rice \<Rightarrow> [(''land_preparation'', 14), (''planting'', 1), (''fertilization'', 25),
                  (''irrigation'', 1), (''pest_control'', 20), (''harvesting'', 120)])"

text \<open>
  \<open>crop_params["growth_stages"].get(operation, 7)\<close>, where \<open>crop_params\<close> falls back
  to the parameters of corn.
\<close>

definition days_to_add :: "crop option \<Rightarrow> string \<Rightarrow> int" where
  "days_to_add c operation =
     (case map_of (growth_stages (case c of None \<Rightarrow> Corn | Some k \<Rightarrow> k)) operation of
        Some n \<Rightarrow> n
      | None \<Rightarrow> 7)"

text \<open>\<open>SchedulingService._calculate_priority\<close>\<close>

definition calculate_priority :: "string \<Rightarrow> int" where
  "calculate_priority operation =
     (case map_of [(''land_preparation'', 1), (''planting'', 2), (''fertilization'', 3),
                   (''irrigation'', 4), (''pest_control'', 3), (''harvesting'', 1)] operation of
        Some p \<Rightarrow> p
      | None \<Rightarrow> 3)"

text \<open>
  Lines 66-87 of \<open>generate_optimized_schedule\<close>: the proposed date is kept when it is
  suitable; otherwise the windows of the 7 days before and after are ranked, and the
  date is that of the first suitable window, of the first window when none is suitable,
  and the proposed date when there is no window.
\<close>

definition choose_date ::
  "('d::linorder) datelib \<Rightarrow> (real \<Rightarrow> string) \<Rightarrow> weather_data \<Rightarrow> 'd \<Rightarrow> error + 'd" where
  "choose_date lib str_of wd proposed_date =
     (case check_weather_suitability lib str_of wd proposed_date True of
        Inl e \<Rightarrow> Inl e
      | Inr weather_suitability \<Rightarrow>
          if \<not> is_suitable weather_suitability
          then (let start_window = add_days lib proposed_date (- 7);
                    end_window = add_days lib proposed_date 7
                in case get_optimal_weather_window lib wd start_window end_window True of
                     Inl e \<Rightarrow> Inl e
                   | Inr [] \<Rightarrow> Inr proposed_date
                   | Inr (first_window # others) \<Rightarrow>
                       Inr (window_date
                              (case find window_is_suitable (first_window # others) of
                                 Some w \<Rightarrow> w
                               | None \<Rightarrow> first_window)))
          else Inr proposed_date)"

text \<open>
  \<open>SchedulingService.create_scheduled_task\<close>: the row gets the user, the status
  \<open>pending\<close> and the column default of \<open>decision_tree_recommendation\<close>, is added and
  committed, and is returned.
\<close>

definition create_scheduled_task ::
  "'d database \<Rightarrow> 'd scheduled_task_create \<Rightarrow> int \<Rightarrow> 'd database \<times> 'd scheduled_task" where
  "create_scheduled_task db task_data uid =
     (let task = \<lparr>task_type = task_type task_data,
                  scheduled_date = scheduled_date task_data,
                  task_estimated_cost = task_estimated_cost task_data,
                  requires_dry_weather = requires_dry_weather task_data,
                  priority = priority task_data,
                  task_field_id = task_field_id task_data,
                  user_id = uid,
                  status = ''pending'',
                  decision_tree_recommendation = False\<rparr>
      in (db\<lparr>scheduled_tasks := scheduled_tasks db @ [task]\<rparr>, task))"

text \<open>
  \<open>task.decision_tree_recommendation = True; db.commit()\<close> on the task just created,
  whose row is the last of the table.
\<close>

definition commit_recommendation :: "'d database \<Rightarrow> 'd scheduled_task \<Rightarrow> 'd database" where
  "commit_recommendation db task =
     db\<lparr>scheduled_tasks := butlast (scheduled_tasks db) @ [task]\<rparr>"

text \<open>
  The loop over the operations: \<open>current_date\<close> advances to the chosen date, every
  task is committed as soon as it is created, and an exception leaves the loop with the
  database as it is then.
\<close>

fun schedule_operations ::
  "('d::linorder) datelib \<Rightarrow> (real \<Rightarrow> string) \<Rightarrow> weather_data \<Rightarrow> 'd farm_field \<Rightarrow> int \<Rightarrow> int
     \<Rightarrow> 'd \<Rightarrow> string list \<Rightarrow> 'd database
     \<Rightarrow> 'd database \<times> (error + 'd scheduled_task list)" where
  "schedule_operations lib str_of wd field fid uid current_date [] db = (db, Inr [])"
| "schedule_operations lib str_of wd field fid uid current_date (operation # rest) db =
     (let proposed_date = add_days lib current_date (days_to_add (crop_type field) operation)
      in case choose_date lib str_of wd proposed_date of
           Inl e \<Rightarrow> (db, Inl e)
         | Inr optimal_date \<Rightarrow>
             (let task_data = \<lparr>task_type = operation,
                               scheduled_date = optimal_date,
                               task_estimated_cost =
                                 estimate_operation_cost operation (area_hectares field),
                               requires_dry_weather = True,
                               priority = calculate_priority operation,
                               task_field_id = fid\<rparr>;
                  created = create_scheduled_task db task_data uid;
                  task = (snd created)\<lparr>decision_tree_recommendation := True\<rparr>;
                  db' = commit_recommendation (fst created) task;
                  later = schedule_operations lib str_of wd field fid uid optimal_date rest db'
              in (fst later,
                  case snd later of
                    Inl e \<Rightarrow> Inl e
                  | Inr scheduled \<Rightarrow> Inr (task # scheduled))))"

text \<open>\<open>if not operations\<close>: \<open>None\<close> and the empty list both select the six default steps.\<close>

definition requested_operations :: "string list option \<Rightarrow> string list" where
  "requested_operations operations =
     (case operations of
        Some (operation # rest) \<Rightarrow> operation # rest
      | _ \<Rightarrow> [''land_preparation'', ''planting'', ''fertilization'',
              ''irrigation'', ''pest_control'', ''harvesting''])"

text \<open>
  \<open>SchedulingService.generate_optimized_schedule\<close>. \<open>forecast\<close> is the outcome of the
  call of the forecast provider (an external collaborator), \<open>now\<close> the current time.
  The result is the database after the call and what the call returns or raises.
\<close>

definition generate_optimized_schedule ::
  "('d::linorder) datelib \<Rightarrow> (real \<Rightarrow> string) \<Rightarrow> 'd database \<Rightarrow> int \<Rightarrow> int
     \<Rightarrow> string list option \<Rightarrow> 'd \<Rightarrow> error + weather_data
     \<Rightarrow> 'd database \<times> (error + 'd scheduled_task list)" where
  "generate_optimized_schedule lib str_of db fid uid operations now forecast =
     (case farm_fields db fid of
        None \<Rightarrow> (db, Inl FieldNotFound)
      | Some field \<Rightarrow>
          (let current_date = (case planting_date field of Some d \<Rightarrow> d | None \<Rightarrow> now)
           in case forecast of
                Inl e \<Rightarrow> (db, Inl e)
              | Inr wd \<Rightarrow>
                  schedule_operations lib str_of wd field fid uid current_date
                    (requested_operations operations) db))"

section \<open>Partial budgeting (app/financial/partial\_budgeting.py)\<close>

record partial_budgeting_input =
  added_returns :: real
  reduced_costs :: real
  added_costs :: real
  reduced_returns :: real

record partial_budgeting_response =
  net_benefit :: real
  is_profitable :: bool
  recommendation :: string

text \<open>
  \<open>PartialBudgeting.calculate_net_benefit\<close>. \<open>format_2f x\<close> stands for Python's
  \<open>f"{x:.2f}"\<close>.
\<close>

definition calculate_net_benefit ::
  "(real \<Rightarrow> string) \<Rightarrow> partial_budgeting_input \<Rightarrow> partial_budgeting_response" where
  "calculate_net_benefit format_2f input_data =
     (let total_benefits = added_returns input_data + reduced_costs input_data;
          total_costs = added_costs input_data + reduced_returns input_data;
          net = total_benefits - total_costs
      in \<lparr>net_benefit = net,
          is_profitable = (net > 0),
          recommendation =
            (if net > 0 then
               ''Proceed with the change. Expected net benefit: '' @ format_2f net @ '' PHP''
             else if net = 0 then
               ''The change is neutral. Consider other factors before proceeding.''
             else
               ''Do not proceed. Expected net loss: '' @ format_2f (abs net) @ '' PHP'')\<rparr>)"







section \<open>The statements of the specification\<close>

text \<open>
  The table of unit costs as the specification words it: per-hectare cost by operation
  type, 1000 for every other type.
\<close>

definition unit_cost :: "string \<Rightarrow> real" where
  "unit_cost operation =
     (if operation = ''land_preparation'' then 5000
      else if operation = ''planting'' then 3000
      else if operation = ''fertilization'' then 2000
      else if operation = ''irrigation'' then 1000
      else if operation = ''pest_control'' then 1500
      else if operation = ''harvesting'' then 4000
      else 1000)"

text \<open>Exchanging the roles of the current and the proposed course of action.\<close>

definition swap_roles :: "partial_budgeting_input \<Rightarrow> partial_budgeting_input" where
  "swap_roles i =
     \<lparr>added_returns = reduced_returns i,
      reduced_costs = added_costs i,
      added_costs = reduced_costs i,
      reduced_returns = added_returns i\<rparr>"











section \<open>Concrete data\<close>

text \<open>
  A fragment of the calendar for concrete runs: points in time are whole days counted
  from 2025-06-01, and the three library operations are tabulated for the first ten days
  of June 2025.
\<close>

definition june_days :: "(string \<times> int) list" where
  "june_days =
     [(''2025-06-01'', 0), (''2025-06-02'', 1), (''2025-06-03'', 2), (''2025-06-04'', 3),
      (''2025-06-05'', 4), (''2025-06-06'', 5), (''2025-06-07'', 6), (''2025-06-08'', 7),
      (''2025-06-09'', 8), (''2025-06-10'', 9)]"

definition june :: "int datelib" where
  "june =
     \<lparr>fromisoformat = map_of june_days,
      strftime = (\<lambda>d. case map_of (map (\<lambda>(s, n). (n, s)) june_days) d of
                         Some s \<Rightarrow> s | None \<Rightarrow> ''out of table''),
      add_days = (\<lambda>d n. d + n)\<rparr>"

text \<open>
  A forecast of five days: a rainy day, a hot dry day, an ideal day, a day without
  readings, and a day outside the range 2025-06-02 .. 2025-06-06 whose readings are
  \<open>null\<close> and 0.
\<close>

definition forecast_a :: weather_data where
  "forecast_a = \<lparr>daily = Some
     [\<lparr>date = Some ''2025-06-02'', precipitation_sum = Num 2,
        temperature_2m_max = Num 25, temperature_2m_min = Num 18\<rparr>,
      \<lparr>date = Some ''2025-06-03'', precipitation_sum = Num 0,
        temperature_2m_max = Num 33, temperature_2m_min = Num 20\<rparr>,
      \<lparr>date = Some ''2025-06-04'', precipitation_sum = Num 0,
        temperature_2m_max = Num 25, temperature_2m_min = Num 15\<rparr>,
      \<lparr>date = Some ''2025-06-05'', precipitation_sum = Absent,
        temperature_2m_max = Null, temperature_2m_min = Null\<rparr>,
      \<lparr>date = Some ''2025-06-09'', precipitation_sum = Null,
        temperature_2m_max = Num 0, temperature_2m_min = Num 0\<rparr>]\<rparr>"


text \<open>A database with one field, 1 hectare of corn planted on 2025-06-01, and no task.\<close>

definition one_field :: "int database" where
  "one_field =
     \<lparr>farm_fields = (\<lambda>i. if i = 1
                     then Some \<lparr>area_hectares = 1, crop_type = Some Corn, planting_date = Some 0\<rparr>
                     else None),
      scheduled_tasks = []\<rparr>"

text \<open>A forecast whose only day, 2025-06-05, has a \<open>null\<close> precipitation.\<close>

definition forecast_c :: weather_data where
  "forecast_c = \<lparr>daily = Some
     [\<lparr>date = Some ''2025-06-05'', precipitation_sum = Null,
        temperature_2m_max = Num 25, temperature_2m_min = Num 18\<rparr>]\<rparr>"

text \<open>The tasks that planting on day 1 and harvesting on day 91 create on field 1.\<close>

definition planting_task :: "int scheduled_task" where
  "planting_task =
     \<lparr>task_type = ''planting'', scheduled_date = 1, task_estimated_cost = 3000,
      requires_dry_weather = True, priority = 2, task_field_id = 1, user_id = 7,
      status = ''pending'', decision_tree_recommendation = True\<rparr>"



definition format_whole :: "real \<Rightarrow> string" where
  "format_whole x = (if x = 3000 then ''3000.00'' else ''?'')"



section \<open>Properties of the descending sort\<close>






section \<open>Properties of the weather windows\<close>


text \<open>
  A maximum temperature of exactly 0 is falsy in \<open>temp_max and ...\<close>: the day gets no
  adjustment, although 0 is below 15.
\<close>

lemma temperature_score_zero: "temperature_score (Some 0) score = score"
  by (simp add: temperature_score_def)







text \<open>
  C10. When no entry of the forecast carries the date string of the requested date (in
  particular when the forecast is empty), \<open>check_weather_suitability\<close> returns
  suitable with no reasons and no risks, whatever \<open>requires_dry_weather\<close> is.
\<close>

theorem check_weather_suitability_absent_day:
  assumes "\<forall>e\<in>set (daily_list wd). date e \<noteq> Some (strftime lib d)"
  shows "check_weather_suitability lib str_of wd d dry
           = Inr \<lparr>is_suitable = True, reasons = [], risks = []\<rparr>"
proof -
  have "check_daily str_of dry target s es = Inr s"
    if "\<forall>e\<in>set es. date e \<noteq> Some target" for target s es
    using that by (induction es) simp_all
  from this [OF assms] show ?thesis
    by (simp add: check_weather_suitability_def)
qed

text \<open>
  2025-06-08 is not among the days of \<open>forecast_a\<close>, and an empty forecast has no day
  at all: both are suitable, with dry weather required or not.
\<close>

theorem check_weather_suitability_absent_day_witness:
  "check_weather_suitability june (\<lambda>x. ''?'') forecast_a 7 True
     = Inr \<lparr>is_suitable = True, reasons = [], risks = []\<rparr>
   \<and> check_weather_suitability june (\<lambda>x. ''?'') \<lparr>daily = Some []\<rparr> 7 False
     = Inr \<lparr>is_suitable = True, reasons = [], risks = []\<rparr>
   \<and> check_weather_suitability june (\<lambda>x. ''?'') \<lparr>daily = None\<rparr> 7 True
     = Inr \<lparr>is_suitable = True, reasons = [], risks = []\<rparr>"
proof -
  have a: "\<forall>e\<in>set (daily_list forecast_a). date e \<noteq> Some (strftime june 7)"
    by (simp add: forecast_a_def daily_list_def june_def june_days_def)
  have b: "\<forall>e\<in>set (daily_list \<lparr>daily = Some []\<rparr>). date e \<noteq> Some (strftime june 7)"
    by (simp add: daily_list_def)
  have c: "\<forall>e\<in>set (daily_list \<lparr>daily = None\<rparr>). date e \<noteq> Some (strftime june 7)"
    by (simp add: daily_list_def)
  show ?thesis
    using check_weather_suitability_absent_day [OF a, of "\<lambda>x. ''?''" True]
      check_weather_suitability_absent_day [OF b, of "\<lambda>x. ''?''" False]
      check_weather_suitability_absent_day [OF c, of "\<lambda>x. ''?''" True]
    by simp
qed

text \<open>
  What the suitability check does for the entry of the requested date: rain on a day
  that must be dry makes it unsuitable; a maximum above 35 adds the high-temperature
  risk; a minimum below 10 that is not 0 adds the low-temperature risk.
\<close>

lemma check_precipitation_rain:
  assumes "p > 0"
  shows "\<exists>s'. check_precipitation str_of True (Some p) s = Inr s' \<and> \<not> is_suitable s'"
  using assms by simp

lemma check_temperature_risks:
  "risks (check_temperature e s) =
     risks s
     @ (if truthy_and (dict_get (temperature_2m_max e)) (\<lambda>t. t > 35)
        then [''High temperature stress''] else [])
     @ (if truthy_and (dict_get (temperature_2m_min e)) (\<lambda>t. t < 10)
        then [''Low temperature stress''] else [])"
  by (simp add: check_temperature_def Let_def)

lemma check_temperature_is_suitable:
  "is_suitable (check_temperature e s) = is_suitable s"
  by (simp add: check_temperature_def Let_def)

text \<open>
  C5 fails on a minimum temperature of exactly 0: on 2025-06-03 with a minimum of 0
  and a maximum of 25 the check returns no risk at all, where the claim requires the
  low-temperature risk for every minimum below 10, 0 included. The test
  \<open>temp_min and temp_min < 10\<close> takes the number 0 as false.
\<close>

theorem check_weather_suitability_zero_minimum:
  "check_weather_suitability june (\<lambda>x. ''?'')
      \<lparr>daily = Some [\<lparr>date = Some ''2025-06-03'', precipitation_sum = Num 0,
                       temperature_2m_max = Num 25, temperature_2m_min = Num 0\<rparr>]\<rparr> 2 False
     = Inr \<lparr>is_suitable = True, reasons = [], risks = []\<rparr>"
  by (simp add: check_weather_suitability_def june_def june_days_def daily_list_def
      check_entry_def check_temperature_def)

section \<open>Properties of the estimators\<close>

lemma estimate_operation_cost_unit:
  "estimate_operation_cost operation a = unit_cost operation * a"
  by (simp add: estimate_operation_cost_def cost_estimates_def unit_cost_def)



lemma unit_cost_positive: "0 < unit_cost operation"
  by (simp add: unit_cost_def)

lemma impact_positive:
  "0 < (case map_of impact_factors operation of Some i \<Rightarrow> i | None \<Rightarrow> (0.1::real))"
  by (simp add: impact_factors_def)

lemma base_yields_positive: "0 < base_yields crop"
  by (cases crop; cases "the crop") (simp_all add: base_yields_def)

lemma predict_yield_formula:
  "predict_yield crop operation score a
     = base_yields crop * a
       * (case map_of impact_factors operation of Some i \<Rightarrow> i | None \<Rightarrow> 0.1)
       * (0.5 + score / 100)"
  by (simp add: predict_yield_def Let_def)

text \<open>
  C4, in the form that holds.
  For every area, negative ones included, the cost estimator returns the
  unit cost times the area and the yield estimator returns base yield times area times
  impact factor times (0.5 + weather score / 100); neither raises an error. For a
  negative area the estimated cost is negative, and so is the estimated yield when the
  weather score is not negative.
\<close>

theorem estimators_on_negative_area:
  "estimate_operation_cost operation a = unit_cost operation * a
   \<and> predict_yield crop operation score a
       = base_yields crop * a
         * (case map_of impact_factors operation of Some i \<Rightarrow> i | None \<Rightarrow> 0.1)
         * (0.5 + score / 100)
   \<and> (a < 0 \<longrightarrow> estimate_operation_cost operation a < 0)
   \<and> (a < 0 \<and> 0 \<le> score \<longrightarrow> predict_yield crop operation score a < 0)"
proof -
  have cost: "estimate_operation_cost operation a < 0" if "a < 0"
    using that unit_cost_positive [of operation]
    by (simp add: estimate_operation_cost_unit mult_pos_neg)
  have yield: "predict_yield crop operation score a < 0" if "a < 0" "0 \<le> score"
  proof -
    have "base_yields crop * a < 0"
      using that(1) base_yields_positive [of crop] by (simp add: mult_pos_neg)
    then have "base_yields crop * a
        * (case map_of impact_factors operation of Some i \<Rightarrow> i | None \<Rightarrow> 0.1) < 0"
      using impact_positive [of operation] by (simp add: mult_neg_pos)
    moreover have "0 < 0.5 + score / 100" using that(2) by simp
    ultimately show ?thesis
      unfolding predict_yield_formula by (rule mult_neg_pos)
  qed
  from cost yield show ?thesis
    using estimate_operation_cost_unit predict_yield_formula by blast
qed

text \<open>Irrigation of -1 hectare of rice at a weather score of 50.\<close>

theorem estimators_on_negative_area_witness:
  "(- 1 :: real) < 0 \<and> (0::real) \<le> 50
   \<and> estimate_operation_cost ''irrigation'' (- 1) < 0
   \<and> predict_yield (Some Rice) ''irrigation'' 50 (- 1) < 0
   \<and> estimate_operation_cost ''irrigation'' (- 1) = - 1000
   \<and> predict_yield (Some Rice) ''irrigation'' 50 (- 1) = - 8000"
  using estimators_on_negative_area [of "''irrigation''" "- 1" "Some Rice" 50]
  by (simp add: unit_cost_def base_yields_def impact_factors_def)

text \<open>
  C4 as stated fails: for planting on -2 hectares of corn at a weather score of 100 the
  estimators do not fail; they return a cost of -6000 and a yield of -13500.
\<close>

theorem estimators_negative_area_counterexample:
  "estimate_operation_cost ''planting'' (- 2) = - 6000
   \<and> predict_yield (Some Corn) ''planting'' 100 (- 2) = - 13500"
  by (simp add: estimate_operation_cost_def cost_estimates_def predict_yield_def
      base_yields_def impact_factors_def)

section \<open>Properties of the recommendation\<close>












section \<open>Properties of the schedule generation\<close>












lemma add_days_june: "add_days june d n = d + n"
  by (simp add: june_def)


text \<open>
  A failure in a later step leaves the tasks of the earlier steps in the database: on
  \<open>forecast_c\<close> planting is stored for day 1, and irrigation, proposed for day 4, raises
  \<open>TypeError\<close> on the \<open>null\<close> precipitation of that day.
\<close>

lemma generate_optimized_schedule_commits_before_failure:
  "generate_optimized_schedule june format_whole one_field 1 7
      (Some [''planting'', ''irrigation'']) 5 (Inr forecast_c)
     = (one_field\<lparr>scheduled_tasks := [planting_task]\<rparr>, Inl TypeError)"
proof -
  have c1: "choose_date june format_whole forecast_c 1 = Inr 1"
    by (simp add: choose_date_def check_weather_suitability_def daily_list_def forecast_c_def
        june_def june_days_def)
  have c4: "choose_date june format_whole forecast_c 4 = Inl TypeError"
    by (simp add: choose_date_def check_weather_suitability_def daily_list_def forecast_c_def
        june_def june_days_def check_entry_def)
  show ?thesis
    by (simp add: generate_optimized_schedule_def one_field_def requested_operations_def c1 c4
        add_days_june days_to_add_def growth_stages_def estimate_operation_cost_def
        cost_estimates_def calculate_priority_def create_scheduled_task_def
        commit_recommendation_def planting_task_def Let_def)
qed

section \<open>Properties of partial budgeting\<close>

text \<open>
  C7. The net benefit is (added returns + reduced costs) - (added costs + reduced
  returns); the change is profitable exactly when the net benefit is positive; the
  recommendation is the proceed sentence with the formatted positive value, the neutral
  sentence at exactly zero, and the do-not-proceed sentence with the formatted absolute
  loss when the net benefit is negative.
\<close>

theorem calculate_net_benefit_spec:
  fixes format_2f :: "real \<Rightarrow> string" and i :: partial_budgeting_input
  defines "r \<equiv> calculate_net_benefit format_2f i"
  shows "net_benefit r = (added_returns i + reduced_costs i) - (added_costs i + reduced_returns i)
    \<and> is_profitable r = (net_benefit r > 0)
    \<and> (net_benefit r > 0 \<longrightarrow> recommendation r =
          ''Proceed with the change. Expected net benefit: '' @ format_2f (net_benefit r) @ '' PHP'')
    \<and> (net_benefit r = 0 \<longrightarrow> recommendation r =
          ''The change is neutral. Consider other factors before proceeding.'')
    \<and> (net_benefit r < 0 \<longrightarrow> recommendation r =
          ''Do not proceed. Expected net loss: '' @ format_2f (abs (net_benefit r)) @ '' PHP'')"
  unfolding r_def by (simp add: calculate_net_benefit_def Let_def)

text \<open>
  The specification's scenario C: added returns 1000, reduced costs 200, added costs
  500, reduced returns 0 give a net benefit of 700 and a profitable change.
\<close>

theorem calculate_net_benefit_spec_witness:
  "net_benefit (calculate_net_benefit (\<lambda>x. if x = 700 then ''700.00'' else ''?'')
      \<lparr>added_returns = 1000, reduced_costs = 200, added_costs = 500, reduced_returns = 0\<rparr>) = 700
   \<and> is_profitable (calculate_net_benefit (\<lambda>x. if x = 700 then ''700.00'' else ''?'')
      \<lparr>added_returns = 1000, reduced_costs = 200, added_costs = 500, reduced_returns = 0\<rparr>)
   \<and> recommendation (calculate_net_benefit (\<lambda>x. if x = 700 then ''700.00'' else ''?'')
      \<lparr>added_returns = 1000, reduced_costs = 200, added_costs = 500, reduced_returns = 0\<rparr>)
      = ''Proceed with the change. Expected net benefit: 700.00 PHP''"
  using calculate_net_benefit_spec [of "\<lambda>x. if x = 700 then ''700.00'' else ''?''"
      "\<lparr>added_returns = 1000, reduced_costs = 200, added_costs = 500, reduced_returns = 0\<rparr>"]
  by simp

text \<open>
  C8. Exchanging added returns with reduced returns and reduced costs with added costs
  negates the net benefit.
\<close>

theorem net_benefit_antisymmetric:
  "net_benefit (calculate_net_benefit format_2f (swap_roles i))
     = - net_benefit (calculate_net_benefit format_2f i)"
  by (simp add: calculate_net_benefit_def swap_roles_def Let_def)

section \<open>Properties of the resource allocation\<close>















end
